theory Spec2Isabelle
  imports Main
begin

section \<open>Data model\<close>

text \<open>
  The refresh-token strategy of the authentication module
  (\<^verbatim>\<open>src/domain/strategies/refresh-token.strategy.ts\<close>) and the signer
  configuration of \<^verbatim>\<open>AuthModule.forRootAsync\<close>.

  The three values of the enum \<^verbatim>\<open>AuthTransferTokenMethod\<close>:
  \<^verbatim>\<open>cookie\<close>, \<^verbatim>\<open>bearer\<close> and \<^verbatim>\<open>both\<close>.
\<close>

datatype AuthTransferTokenMethod = COOKIE_ONLY | BEARER_ONLY | BOTH

text \<open>
  A request, as far as the strategy looks at it: its cookies and its headers by name. A
  name that is not sent maps to \<open>None\<close> (JavaScript's \<^verbatim>\<open>undefined\<close>); a name
  sent with no content maps to \<open>Some []\<close>, the empty string.
\<close>

record IHttpRequest =
  cookies :: "string \<rightharpoonup> string"
  headers :: "string \<rightharpoonup> string"

text \<open>
  The part of \<^verbatim>\<open>IAuthDefinitions\<close> that the two source files read. The settings
  \<^verbatim>\<open>jwt.secret\<close>, \<^verbatim>\<open>jwt.expiresIn\<close> and
  \<^verbatim>\<open>jwt.refreshTokenExpiresIn\<close> are flattened into one record; a time span is
  held as its number of seconds.
\<close>

record IAuthDefinitions =
  jwt_secret :: string
  jwt_expiresIn :: int
  jwt_refreshTokenExpiresIn :: int
  transferTokenMethod :: AuthTransferTokenMethod
  redactedFields :: "string list"

text \<open>
  The claims of a decoded token that \<^verbatim>\<open>validate\<close> reads: the user name and the
  expiry \<^verbatim>\<open>exp\<close>, in whole seconds since the epoch, as the signer writes it.
\<close>

record IJwtPayload =
  username :: string
  exp :: int

text \<open>
  A user record of the directory is an object of named fields; the order of the fields is
  kept, as a copy of a JavaScript object keeps it.
\<close>

type_synonym IAuthUserEntity = "(string \<times> string) list"

type_synonym IAuthUserEntityForResponse = "(string \<times> string) list"

text \<open>
  A call of a collaborator returns a value or throws. An observable emits values in
  order and then completes, or fails with an error, or does neither; the promise taken
  from it is resolved with a value, rejected, or left pending.
\<close>

datatype 'a returned = returns 'a | throws

datatype closing = completes | errors | never_ends

datatype 'a Observable = Observable "'a list" closing

datatype rejection = Thrown | ObservableError | EmptyError

datatype 'a Promise = resolved 'a | rejected rejection | pending

text \<open>
  The injected collaborators. \<^verbatim>\<open>AuthRepository.getAuthUserByUsername\<close>
  returns an observable of a record or \<^verbatim>\<open>undefined\<close>; an exception thrown
  while the observable is built reaches the subscriber as its error. The decoders of
  \<^verbatim>\<open>TokenService\<close> return a payload or \<^verbatim>\<open>undefined\<close>, or throw.
\<close>

record AuthRepository =
  getAuthUserByUsername :: "string \<Rightarrow> IAuthUserEntity option Observable"

record TokenService =
  decodeAccessToken :: "string \<Rightarrow> IJwtPayload option returned"
  decodeRefreshToken :: "string \<Rightarrow> IJwtPayload option returned"

record RefreshTokenStrategy =
  authDefinitions :: IAuthDefinitions
  authRepository :: AuthRepository
  jwtService :: TokenService

text \<open>
  What a run of the strategy does to its surroundings, in the order it does it: reading a
  cookie or a header of the request, calling \<^verbatim>\<open>decodeRefreshToken\<close> or
  \<^verbatim>\<open>decodeAccessToken\<close>, asking the directory for a user name. Each call of a
  helper or collaborator in the source is one entry of the run.
\<close>

datatype effect =
    ReadCookie string
  | ReadHeader string
  | DecodeRefresh string
  | DecodeAccess string
  | LookupUser string

text \<open>
  How a call of \<^verbatim>\<open>authenticate\<close> ends: with \<^verbatim>\<open>this.fail(status)\<close>,
  with \<^verbatim>\<open>this.success(user)\<close>, or with neither of them called, when its
  promise is rejected by an exception or never settles. The method has no
  \<^verbatim>\<open>try\<close>.
\<close>

datatype outcome =
    fail nat
  | success IAuthUserEntityForResponse
  | rejects rejection
  | pends

definition UNAUTHORIZED :: nat where
  "UNAUTHORIZED = 401"

section \<open>Imported helpers\<close>

text \<open>
  Modelled from the spec: \<^verbatim>\<open>getRequestCookie\<close> is imported by the strategy and
  is not among the source files. It returns the cookie of that name carried by the
  request.
\<close>

definition getRequestCookie :: "IHttpRequest \<Rightarrow> string \<Rightarrow> string option" where
  "getRequestCookie request name = cookies request name"

text \<open>
  Modelled from the spec: \<^verbatim>\<open>getRequestHeader\<close> is imported by the strategy and
  is not among the source files. It returns the header of that name carried by the
  request.
\<close>

definition getRequestHeader :: "IHttpRequest \<Rightarrow> string \<Rightarrow> string option" where
  "getRequestHeader request name = headers request name"

text \<open>
  Modelled from the spec: \<^verbatim>\<open>hideRedactedFields\<close> is imported by the strategy and
  is not among the source files. Given a user record and the field names, it returns a
  copy with those fields left out; names that the record does not have are ignored. The
  strategy applies it to what the directory answers, which may be
  \<^verbatim>\<open>undefined\<close>: an absent record stays absent, since the spec has an absent
  answer of the directory propagated without masking, and the result type of
  \<^verbatim>\<open>validate\<close> is \<^verbatim>\<open>IAuthUserEntityForResponse | undefined\<close>.
\<close>

definition hideRedactedFields ::
  "string list \<Rightarrow> IAuthUserEntity option \<Rightarrow> IAuthUserEntityForResponse option" where
  "hideRedactedFields names user =
     (case user of
        None \<Rightarrow> None
      | Some u \<Rightarrow> Some (filter (\<lambda>kv. fst kv \<notin> set names) u))"

section \<open>Token extraction\<close>

text \<open>
  JavaScript's truth value of a string or \<^verbatim>\<open>null\<close>: only a non-empty string is
  truthy. \<open>or_null v\<close> is \<^verbatim>\<open>v || null\<close>.
\<close>

definition truthy :: "string option \<Rightarrow> bool" where
  "truthy v = (case v of None \<Rightarrow> False | Some s \<Rightarrow> s \<noteq> [])"

definition or_null :: "string option \<Rightarrow> string option" where
  "or_null v = (if truthy v then v else None)"

type_synonym JwtFromRequestFunction = "IHttpRequest \<Rightarrow> string option \<times> effect list"

definition cookieExtractor :: "AuthTransferTokenMethod \<Rightarrow> JwtFromRequestFunction" where
  "cookieExtractor mode request =
     (if mode = BEARER_ONLY then (None, [])
      else (or_null (getRequestCookie request ''RefreshToken''),
            [ReadCookie ''RefreshToken'']))"

definition refreshTokenHeaderExtractor ::
  "AuthTransferTokenMethod \<Rightarrow> JwtFromRequestFunction" where
  "refreshTokenHeaderExtractor mode request =
     (if mode = COOKIE_ONLY then (None, [])
      else (or_null (getRequestHeader request ''refresh-token''),
            [ReadHeader ''refresh-token'']))"

text \<open>
  \<^verbatim>\<open>ExtractJwt.fromExtractors\<close> of passport-jwt: starting from
  \<^verbatim>\<open>token = null\<close>, it calls the extractors in order while the token is falsy,
  and returns the token.
\<close>

fun fromExtractors_loop ::
  "string option \<times> effect list \<Rightarrow> JwtFromRequestFunction list \<Rightarrow> JwtFromRequestFunction"
where
  "fromExtractors_loop (token, log) [] request = (token, log)"
| "fromExtractors_loop (token, log) (e # es) request =
     (if truthy token then (token, log)
      else (case e request of
              (t, evs) \<Rightarrow> fromExtractors_loop (t, log @ evs) es request))"

definition fromExtractors :: "JwtFromRequestFunction list \<Rightarrow> JwtFromRequestFunction" where
  "fromExtractors extractors request = fromExtractors_loop (None, []) extractors request"

text \<open>The field \<^verbatim>\<open>jwtFromRequest\<close> that the constructor sets.\<close>

definition jwtFromRequest :: "RefreshTokenStrategy \<Rightarrow> JwtFromRequestFunction" where
  "jwtFromRequest this =
     fromExtractors
       [cookieExtractor (transferTokenMethod (authDefinitions this)),
        refreshTokenHeaderExtractor (transferTokenMethod (authDefinitions this))]"

section \<open>Validation\<close>

text \<open>
  The operators of rxjs that \<^verbatim>\<open>validate\<close> uses. \<^verbatim>\<open>of(x)\<close> emits
  \<open>x\<close> and completes; \<^verbatim>\<open>map(f)\<close> applies \<open>f\<close> to every value;
  \<^verbatim>\<open>lastValueFrom\<close> resolves with the last value when the observable completes,
  and rejects when it fails or completes without a value.
  \<^verbatim>\<open>of(payload).pipe(mergeMap(g))\<close> emits what \<open>g payload\<close> emits and ends
  as that ends.
\<close>

definition rx_of :: "'a \<Rightarrow> 'a Observable" where
  "rx_of x = Observable [x] completes"

fun rx_map :: "('a \<Rightarrow> 'b) \<Rightarrow> 'a Observable \<Rightarrow> 'b Observable" where
  "rx_map f (Observable xs c) = Observable (map f xs) c"

fun lastValueFrom :: "'a Observable \<Rightarrow> 'a Promise" where
  "lastValueFrom (Observable xs never_ends) = pending"
| "lastValueFrom (Observable xs errors) = rejected ObservableError"
| "lastValueFrom (Observable [] completes) = rejected EmptyError"
| "lastValueFrom (Observable (x # xs) completes) = resolved (last (x # xs))"

text \<open>
  Instants are whole milliseconds since the epoch. A JavaScript \<^verbatim>\<open>Date\<close> holds
  an instant of at most \<open>8640000000000000\<close> milliseconds on either side of the epoch;
  within that range the product \<^verbatim>\<open>payload.exp * 1000\<close> is exact, and beyond
  it \<^verbatim>\<open>moment(t).toDate()\<close> is an Invalid Date, here \<open>None\<close>.
  \<^verbatim>\<open>moment().isAfter(d)\<close> compares the clock reading \<open>now\<close>, which is a
  valid instant, with \<open>d\<close>: it is true when \<open>d\<close> is valid and strictly earlier
  than \<open>now\<close>, and false when \<open>d\<close> is an Invalid Date.
\<close>

definition isValidTime :: "int \<Rightarrow> bool" where
  "isValidTime t = (- 8640000000000000 \<le> t \<and> t \<le> 8640000000000000)"

definition toDate :: "int \<Rightarrow> int option" where
  "toDate t = (if isValidTime t then Some t else None)"

definition isAfter :: "int \<Rightarrow> int option \<Rightarrow> bool" where
  "isAfter now d = (case d of None \<Rightarrow> False | Some t \<Rightarrow> t < now)"

definition validate ::
  "RefreshTokenStrategy \<Rightarrow> int \<Rightarrow> IJwtPayload \<Rightarrow>
   IAuthUserEntityForResponse option Promise \<times> effect list" where
  "validate this now payload =
     (if isAfter now (toDate (exp payload * 1000)) then (lastValueFrom (rx_of None), [])
      else (lastValueFrom
              (rx_map (hideRedactedFields (redactedFields (authDefinitions this)))
                 (getAuthUserByUsername (authRepository this) (username payload))),
            [LookupUser (username payload)]))"

text \<open>
  The branch of \<^verbatim>\<open>validate\<close> for a token that passes the expiry test: the
  directory is asked for the payload's user name and what it emits goes through
  \<^verbatim>\<open>hideRedactedFields\<close>.
\<close>

abbreviation resolveUser ::
  "RefreshTokenStrategy \<Rightarrow> IJwtPayload \<Rightarrow>
   IAuthUserEntityForResponse option Promise \<times> effect list" where
  "resolveUser this p \<equiv>
     (lastValueFrom
        (rx_map (hideRedactedFields (redactedFields (authDefinitions this)))
           (getAuthUserByUsername (authRepository this) (username p))),
      [LookupUser (username p)])"

text \<open>
  \<^verbatim>\<open>authenticate\<close>: the token is extracted; a truthy token is decoded; a truthy
  payload is validated, and the promise of \<^verbatim>\<open>validate\<close> is awaited; then
  \<^verbatim>\<open>fail\<close> or \<^verbatim>\<open>success\<close> is called. An exception of the decoder,
  or a rejected or pending promise of \<^verbatim>\<open>validate\<close>, ends the call before that.
\<close>

definition authenticate ::
  "RefreshTokenStrategy \<Rightarrow> int \<Rightarrow> IHttpRequest \<Rightarrow> outcome \<times> effect list" where
  "authenticate this now req =
     (case jwtFromRequest this req of
        (token, log1) \<Rightarrow>
          (case (if truthy token
                 then (case token of
                         Some t \<Rightarrow> (decodeRefreshToken (jwtService this) t, [DecodeRefresh t])
                       | None \<Rightarrow> (returns None, []))
                 else (returns None, [])) of
             (throws, log2) \<Rightarrow> (rejects Thrown, log1 @ log2)
           | (returns jwtPayload, log2) \<Rightarrow>
               (case (case jwtPayload of
                        Some p \<Rightarrow> validate this now p
                      | None \<Rightarrow> (resolved None, [])) of
                  (rejected e, log3) \<Rightarrow> (rejects e, log1 @ log2 @ log3)
                | (pending, log3) \<Rightarrow> (pends, log1 @ log2 @ log3)
                | (resolved user, log3) \<Rightarrow>
                    (case (jwtPayload, user) of
                       (Some p, Some u) \<Rightarrow> (success u, log1 @ log2 @ log3)
                     | _ \<Rightarrow> (fail UNAUTHORIZED, log1 @ log2 @ log3)))))"

section \<open>Signer configuration and token codec\<close>

text \<open>
  The options that \<^verbatim>\<open>AuthModule.forRootAsync\<close> hands to
  \<^verbatim>\<open>JwtModule.registerAsync\<close>: its \<^verbatim>\<open>useFactory\<close> reads the secret
  and the expiry of the access token from the auth definitions.
\<close>

record JwtSignOptions =
  expiresIn :: int

record JwtModuleOptions =
  secret :: string
  signOptions :: JwtSignOptions

definition JwtModule_useFactory :: "IAuthDefinitions \<Rightarrow> JwtModuleOptions" where
  "JwtModule_useFactory defs =
     \<lparr>secret = jwt_secret defs, signOptions = \<lparr>expiresIn = jwt_expiresIn defs\<rparr>\<rparr>"

text \<open>
  The payload of the spec's data model: user name and expiry as above, the time of issue
  and the class of the token. A token is its payload together with the signature over it;
  the text encoding of a token is left out.
\<close>

datatype TokenClass = access | refresh

record JwtPayload = IJwtPayload +
  iat :: int
  tokenClass :: TokenClass

record SignedToken =
  payload :: JwtPayload
  signature :: string

text \<open>
  Modelled from the spec: \<^verbatim>\<open>issueAccessToken\<close> of the token codec; the service
  that issues tokens is not among the source files. It encodes a payload with
  \<open>exp = now + configured_ttl\<close> and signs it with the configured secret under a
  symmetric signature scheme \<open>sign\<close>, which is a parameter. Times are in seconds.
\<close>

definition TokenCodec_issueAccessToken ::
  "(string \<Rightarrow> JwtPayload \<Rightarrow> string) \<Rightarrow> JwtModuleOptions \<Rightarrow> int \<Rightarrow> string \<Rightarrow> SignedToken" where
  "TokenCodec_issueAccessToken sign opts now user =
     (let p = \<lparr>username = user, exp = now + expiresIn (signOptions opts),
                iat = now, tokenClass = access\<rparr>
      in \<lparr>payload = p, signature = sign (secret opts) p\<rparr>)"

text \<open>
  Modelled from the spec: \<^verbatim>\<open>decodeAccessToken\<close> of the token codec, of the same
  absent service. It verifies the signature and returns the payload, or invalid
  (\<open>None\<close>) when the signature fails.
\<close>

definition TokenCodec_decodeAccessToken ::
  "(string \<Rightarrow> JwtPayload \<Rightarrow> string) \<Rightarrow> JwtModuleOptions \<Rightarrow> SignedToken \<Rightarrow> JwtPayload option" where
  "TokenCodec_decodeAccessToken sign opts token =
     (if signature token = sign (secret opts) (payload token)
      then Some (payload token) else None)"

section \<open>A sample deployment\<close>

text \<open>
  One directory with the user \<open>alice\<close>, which fails for the name \<open>down\<close>; a
  decoder that knows four refresh tokens and throws on \<open>rt-broken\<close>; and the
  definitions of the README (\<open>password\<close> redacted), in mode \<open>both\<close>.
\<close>

definition sampleDefinitions :: IAuthDefinitions where
  "sampleDefinitions =
     \<lparr>jwt_secret = ''s3cret'', jwt_expiresIn = 86400, jwt_refreshTokenExpiresIn = 604800,
      transferTokenMethod = BOTH, redactedFields = [''password'']\<rparr>"

definition sampleUser :: IAuthUserEntity where
  "sampleUser = [(''id'', ''123456''), (''username'', ''alice''), (''password'', ''hash'')]"

definition sampleRepository :: AuthRepository where
  "sampleRepository =
     \<lparr>getAuthUserByUsername =
        (\<lambda>u. if u = ''alice'' then rx_of (Some sampleUser)
             else if u = ''down'' then Observable [] errors
             else rx_of None)\<rparr>"

definition sampleTokenService :: TokenService where
  "sampleTokenService =
     \<lparr>decodeAccessToken = (\<lambda>t. returns None),
      decodeRefreshToken =
        (\<lambda>t. if t = ''rt-alice'' then returns (Some \<lparr>username = ''alice'', exp = 1700000000\<rparr>)
             else if t = ''rt-ghost'' then returns (Some \<lparr>username = ''ghost'', exp = 1700000000\<rparr>)
             else if t = ''rt-down'' then returns (Some \<lparr>username = ''down'', exp = 1700000000\<rparr>)
             else if t = ''rt-ancient''
               then returns (Some \<lparr>username = ''alice'', exp = - 8640000000001\<rparr>)
             else if t = ''rt-broken'' then throws
             else returns None)\<rparr>"

definition sampleStrategy :: RefreshTokenStrategy where
  "sampleStrategy =
     \<lparr>authDefinitions = sampleDefinitions, authRepository = sampleRepository,
      jwtService = sampleTokenService\<rparr>"

definition withMode :: "AuthTransferTokenMethod \<Rightarrow> RefreshTokenStrategy" where
  "withMode mode =
     sampleStrategy\<lparr>authDefinitions := sampleDefinitions\<lparr>transferTokenMethod := mode\<rparr>\<rparr>"

definition sampleRequest :: "string option \<Rightarrow> string option \<Rightarrow> IHttpRequest" where
  "sampleRequest cookie header =
     \<lparr>cookies = (Map.empty(''RefreshToken'' := cookie)),
      headers = (Map.empty(''refresh-token'' := header))\<rparr>"

definition sampleSign :: "string \<Rightarrow> JwtPayload \<Rightarrow> string" where
  "sampleSign key p = key @ ''.'' @ username p"

section \<open>Properties of the extraction and of the run\<close>

text \<open>
  What \<^verbatim>\<open>jwtFromRequest\<close>, \<^verbatim>\<open>validate\<close> and
  \<^verbatim>\<open>authenticate\<close> compute, case by case, and what a run can contain.
\<close>

lemma jwtFromRequest_eq:
  "jwtFromRequest this req =
     (case transferTokenMethod (authDefinitions this) of
        COOKIE_ONLY \<Rightarrow> (or_null (cookies req ''RefreshToken''), [ReadCookie ''RefreshToken''])
      | BEARER_ONLY \<Rightarrow> (or_null (headers req ''refresh-token''), [ReadHeader ''refresh-token''])
      | BOTH \<Rightarrow>
          (if truthy (cookies req ''RefreshToken'')
           then (cookies req ''RefreshToken'', [ReadCookie ''RefreshToken''])
           else (or_null (headers req ''refresh-token''),
                 [ReadCookie ''RefreshToken'', ReadHeader ''refresh-token''])))"
  by (cases "transferTokenMethod (authDefinitions this)")
     (simp_all add: jwtFromRequest_def fromExtractors_def cookieExtractor_def
        refreshTokenHeaderExtractor_def getRequestCookie_def getRequestHeader_def
        or_null_def truthy_def)

lemma or_null_Some: "(or_null v = Some t) = (v = Some t \<and> t \<noteq> [])"
  by (cases v) (auto simp add: or_null_def truthy_def)

lemma or_null_empty: "or_null (Some []) = None" "or_null None = None"
  by (simp_all add: or_null_def truthy_def)

lemma jwtFromRequest_truthy:
  "truthy (fst (jwtFromRequest this req)) = (fst (jwtFromRequest this req) \<noteq> None)"
  by (cases "transferTokenMethod (authDefinitions this)")
     (auto simp add: jwtFromRequest_eq or_null_def truthy_def split: option.splits)

lemma jwtFromRequest_log:
  "set (snd (jwtFromRequest this req)) \<subseteq>
     {ReadCookie ''RefreshToken'', ReadHeader ''refresh-token''}"
  by (cases "transferTokenMethod (authDefinitions this)")
     (simp_all add: jwtFromRequest_eq)

lemma jwtFromRequest_source:
  "fst (jwtFromRequest this req) = Some t \<Longrightarrow>
     t \<noteq> [] \<and> (cookies req ''RefreshToken'' = Some t \<or> headers req ''refresh-token'' = Some t)"
  by (cases "transferTokenMethod (authDefinitions this)")
     (auto simp add: jwtFromRequest_eq or_null_Some truthy_def split: if_splits option.splits)

lemma lastValueFrom_rx_of: "lastValueFrom (rx_of x) = resolved x"
  by (simp add: rx_of_def)

lemma lastValueFrom_rx_map:
  "lastValueFrom (rx_map f obs) = map_Promise f (lastValueFrom obs)"
proof (cases obs)
  case (Observable xs c)
  then show ?thesis
    by (cases c; cases xs) (simp_all add: last_map)
qed

lemma isAfter_toDate:
  "isAfter now (toDate t) = (isValidTime t \<and> t < now)"
  by (simp add: isAfter_def toDate_def)

lemma validate_eq:
  "validate this now p =
     (if isValidTime (exp p * 1000) \<and> exp p * 1000 < now then (resolved None, [])
      else (map_Promise (hideRedactedFields (redactedFields (authDefinitions this)))
              (lastValueFrom (getAuthUserByUsername (authRepository this) (username p))),
            [LookupUser (username p)]))"
  by (simp add: validate_def isAfter_toDate lastValueFrom_rx_of lastValueFrom_rx_map)

lemma authenticate_eq:
  "authenticate this now req =
     (case fst (jwtFromRequest this req) of
        None \<Rightarrow> (fail 401, snd (jwtFromRequest this req))
      | Some t \<Rightarrow>
          (case decodeRefreshToken (jwtService this) t of
             throws \<Rightarrow> (rejects Thrown, snd (jwtFromRequest this req) @ [DecodeRefresh t])
           | returns None \<Rightarrow> (fail 401, snd (jwtFromRequest this req) @ [DecodeRefresh t])
           | returns (Some p) \<Rightarrow>
               (case fst (validate this now p) of
                  rejected e \<Rightarrow> rejects e
                | pending \<Rightarrow> pends
                | resolved None \<Rightarrow> fail 401
                | resolved (Some u) \<Rightarrow> success u,
                snd (jwtFromRequest this req) @ [DecodeRefresh t] @ snd (validate this now p))))"
proof (cases "jwtFromRequest this req")
  case (Pair token log1)
  have tr: "truthy token = (token \<noteq> None)"
    using jwtFromRequest_truthy [of this req] Pair by simp
  show ?thesis
  proof (cases token)
    case None
    with Pair tr show ?thesis
      by (simp add: authenticate_def UNAUTHORIZED_def)
  next
    case (Some t)
    show ?thesis
    proof (cases "decodeRefreshToken (jwtService this) t")
      case throws
      with Pair tr Some show ?thesis
        by (simp add: authenticate_def)
    next
      case (returns jp)
      show ?thesis
      proof (cases jp)
        case None
        with Pair tr Some returns show ?thesis
          by (simp add: authenticate_def UNAUTHORIZED_def)
      next
        case (Some p)
        note jp = Some
        obtain r log3 where v: "validate this now p = (r, log3)"
          by (cases "validate this now p")
        from Pair tr \<open>token = Some t\<close> returns jp v show ?thesis
          by (cases r) (auto simp add: authenticate_def UNAUTHORIZED_def split: option.splits)
      qed
    qed
  qed
qed



lemma map_Promise_resolved:
  "(map_Promise f pr = resolved y) = (\<exists>x. pr = resolved x \<and> f x = y)"
  by (cases pr) auto

lemma jwtFromRequest_frame:
  assumes "cookies req' ''RefreshToken'' = cookies req ''RefreshToken''"
    and "headers req' ''refresh-token'' = headers req ''refresh-token''"
  shows "jwtFromRequest this req' = jwtFromRequest this req"
  by (simp only: jwtFromRequest_eq assms)

lemma authenticate_frame:
  assumes "cookies req' ''RefreshToken'' = cookies req ''RefreshToken''"
    and "headers req' ''refresh-token'' = headers req ''refresh-token''"
  shows "authenticate this now req' = authenticate this now req"
  by (simp only: authenticate_eq jwtFromRequest_frame [OF assms])

lemma validate_log:
  "set (snd (validate this now p)) \<subseteq> range LookupUser"
  by (simp add: validate_eq)

lemma authenticate_log:
  "set (snd (authenticate this now req)) \<subseteq>
     {ReadCookie ''RefreshToken'', ReadHeader ''refresh-token''} \<union>
     range DecodeRefresh \<union> range LookupUser"
proof -
  have j: "set (snd (jwtFromRequest this req)) \<subseteq>
     {ReadCookie ''RefreshToken'', ReadHeader ''refresh-token''} \<union>
     range DecodeRefresh \<union> range LookupUser"
    using jwtFromRequest_log [of this req] by auto
  have v: "\<And>p. set (snd (validate this now p)) \<subseteq>
     {ReadCookie ''RefreshToken'', ReadHeader ''refresh-token''} \<union>
     range DecodeRefresh \<union> range LookupUser"
    using validate_log [of this now] by blast
  show ?thesis
    using j v
    by (simp add: authenticate_eq split: option.splits returned.splits)
qed

lemma jwtFromRequest_service:
  "jwtFromRequest (this\<lparr>jwtService := s\<rparr>) req = jwtFromRequest this req"
  by (simp add: jwtFromRequest_def)

lemma validate_service:
  "validate (this\<lparr>jwtService := s\<rparr>) now p = validate this now p"
  by (simp add: validate_def)

lemma map_of_filter_redacted:
  "f \<in> set names \<Longrightarrow> map_of (filter (\<lambda>kv. fst kv \<notin> set names) r) f = None"
  by (induction r) auto



lemma sample_runs:
  "authenticate sampleStrategy 1600000000000 (sampleRequest None None) =
     (fail 401, [ReadCookie ''RefreshToken'', ReadHeader ''refresh-token''])"
  "authenticate sampleStrategy 1600000000000 (sampleRequest (Some ''junk'') None) =
     (fail 401, [ReadCookie ''RefreshToken'', DecodeRefresh ''junk''])"
  "authenticate sampleStrategy 1800000000000 (sampleRequest (Some ''rt-alice'') None) =
     (fail 401, [ReadCookie ''RefreshToken'', DecodeRefresh ''rt-alice''])"
  "authenticate sampleStrategy 1600000000000 (sampleRequest (Some ''rt-ghost'') None) =
     (fail 401, [ReadCookie ''RefreshToken'', DecodeRefresh ''rt-ghost'', LookupUser ''ghost''])"
  "authenticate sampleStrategy 1600000000000 (sampleRequest (Some ''rt-alice'') None) =
     (success [(''id'', ''123456''), (''username'', ''alice'')],
      [ReadCookie ''RefreshToken'', DecodeRefresh ''rt-alice'', LookupUser ''alice''])"
  "authenticate sampleStrategy 1600000000000 (sampleRequest (Some ''rt-broken'') None) =
     (rejects Thrown, [ReadCookie ''RefreshToken'', DecodeRefresh ''rt-broken''])"
  "authenticate sampleStrategy 1600000000000 (sampleRequest (Some ''rt-down'') None) =
     (rejects ObservableError,
      [ReadCookie ''RefreshToken'', DecodeRefresh ''rt-down'', LookupUser ''down''])"
  "authenticate sampleStrategy 1600000000000 (sampleRequest (Some ''rt-ancient'') None) =
     (success [(''id'', ''123456''), (''username'', ''alice'')],
      [ReadCookie ''RefreshToken'', DecodeRefresh ''rt-ancient'', LookupUser ''alice''])"
  by (simp_all add: authenticate_eq jwtFromRequest_eq validate_eq isValidTime_def rx_of_def
        sampleStrategy_def sampleDefinitions_def sampleRepository_def sampleUser_def
        sampleTokenService_def sampleRequest_def hideRedactedFields_def or_null_def truthy_def)

section \<open>Expiry\<close>

text \<open>
  C1 (as amended). The expiry test of \<^verbatim>\<open>validate\<close> is strict and in
  milliseconds. For an \<open>exp\<close> whose instant \<open>exp * 1000\<close> a \<^verbatim>\<open>Date\<close> can
  hold, a payload is refused, with no user resolved, whenever the clock reads later than
  \<open>exp * 1000\<close>. Whenever the clock reads \<open>exp * 1000\<close> or earlier,
  \<^verbatim>\<open>validate\<close> goes on to resolve the user in the directory. In whole seconds
  of the clock, \<open>now div 1000\<close>: a token whose \<open>exp\<close> is one second ahead is
  accepted; a token whose \<open>exp\<close> is the current second is accepted in the first
  millisecond of that second and refused in the rest of it.
\<close>

theorem validate_expiry_strict:
  "(isValidTime (exp p * 1000) \<and> exp p * 1000 < now \<longrightarrow>
      validate this now p = (resolved None, [])) \<and>
   (now \<le> exp p * 1000 \<longrightarrow> validate this now p = resolveUser this p) \<and>
   (exp p = now div 1000 + 1 \<longrightarrow> validate this now p = resolveUser this p) \<and>
   (exp p = now div 1000 \<and> now mod 1000 = 0 \<longrightarrow> validate this now p = resolveUser this p) \<and>
   (isValidTime (exp p * 1000) \<and> exp p = now div 1000 \<and> now mod 1000 \<noteq> 0 \<longrightarrow>
      validate this now p = (resolved None, []))"
proof -
  have late: "isValidTime (exp p * 1000) \<and> exp p * 1000 < now \<longrightarrow>
      validate this now p = (resolved None, [])"
    by (simp add: validate_def isAfter_def toDate_def rx_of_def)
  have early: "now \<le> exp p * 1000 \<longrightarrow> validate this now p = resolveUser this p"
    by (simp add: validate_def isAfter_def toDate_def)
  have split: "now = now div 1000 * 1000 + now mod 1000"
    by simp
  have range: "0 \<le> now mod 1000" "now mod 1000 < 1000"
    by simp_all
  have ahead: "exp p = now div 1000 + 1 \<longrightarrow> now \<le> exp p * 1000"
    using split range by linarith
  have same: "exp p = now div 1000 \<longrightarrow> (exp p * 1000 < now) = (now mod 1000 \<noteq> 0)"
  proof
    assume "exp p = now div 1000"
    with split have "now = exp p * 1000 + now mod 1000"
      by simp
    then have "(exp p * 1000 < now) = (0 < now mod 1000)"
      by linarith
    with range show "(exp p * 1000 < now) = (now mod 1000 \<noteq> 0)"
      by linarith
  qed
  from same have on_second:
    "exp p = now div 1000 \<and> now mod 1000 = 0 \<longrightarrow> now \<le> exp p * 1000"
    by auto
  from same have in_second:
    "exp p = now div 1000 \<and> now mod 1000 \<noteq> 0 \<longrightarrow> exp p * 1000 < now"
    by auto
  have next_second:
    "exp p = now div 1000 + 1 \<longrightarrow> validate this now p = resolveUser this p"
  proof
    assume "exp p = now div 1000 + 1"
    with ahead have "now \<le> exp p * 1000" by (rule mp)
    with early show "validate this now p = resolveUser this p" by (rule mp)
  qed
  have first_ms: "exp p = now div 1000 \<and> now mod 1000 = 0 \<longrightarrow>
      validate this now p = resolveUser this p"
  proof
    assume "exp p = now div 1000 \<and> now mod 1000 = 0"
    with on_second have "now \<le> exp p * 1000" by (rule mp)
    with early show "validate this now p = resolveUser this p" by (rule mp)
  qed
  have rest_of_second:
    "isValidTime (exp p * 1000) \<and> exp p = now div 1000 \<and> now mod 1000 \<noteq> 0 \<longrightarrow>
      validate this now p = (resolved None, [])"
  proof
    assume a: "isValidTime (exp p * 1000) \<and> exp p = now div 1000 \<and> now mod 1000 \<noteq> 0"
    then have "exp p = now div 1000 \<and> now mod 1000 \<noteq> 0" by simp
    with in_second have "exp p * 1000 < now" by (rule mp)
    moreover from a have "isValidTime (exp p * 1000)" by (rule conjunct1)
    ultimately have "isValidTime (exp p * 1000) \<and> exp p * 1000 < now" by (intro conjI)
    with late show "validate this now p = (resolved None, [])" by (rule mp)
  qed
  from late early next_second first_ms rest_of_second show ?thesis
    by (intro conjI)
qed

theorem validate_expiry_strict_witness:
  "isValidTime (exp \<lparr>username = ''alice'', exp = 1700000000\<rparr> * 1000) \<and>
   exp \<lparr>username = ''alice'', exp = 1700000000\<rparr> * 1000 < 1700000000001 \<and>
   exp \<lparr>username = ''alice'', exp = 1700000000\<rparr> = 1700000000001 div 1000 \<and>
   (1700000000001::int) mod 1000 \<noteq> 0 \<and>
   validate sampleStrategy 1700000000001 \<lparr>username = ''alice'', exp = 1700000000\<rparr> =
     (resolved None, []) \<and>
   1700000000000 \<le> exp \<lparr>username = ''alice'', exp = 1700000000\<rparr> * 1000 \<and>
   exp \<lparr>username = ''alice'', exp = 1700000000\<rparr> = 1700000000000 div 1000 \<and>
   (1700000000000::int) mod 1000 = 0 \<and>
   validate sampleStrategy 1700000000000 \<lparr>username = ''alice'', exp = 1700000000\<rparr> =
     (resolved (Some [(''id'', ''123456''), (''username'', ''alice'')]), [LookupUser ''alice'']) \<and>
   exp \<lparr>username = ''alice'', exp = 1700000000\<rparr> = 1699999999500 div 1000 + 1 \<and>
   validate sampleStrategy 1699999999500 \<lparr>username = ''alice'', exp = 1700000000\<rparr> =
     (resolved (Some [(''id'', ''123456''), (''username'', ''alice'')]), [LookupUser ''alice''])"
proof -
  have r: "resolveUser sampleStrategy \<lparr>username = ''alice'', exp = 1700000000\<rparr> =
     (resolved (Some [(''id'', ''123456''), (''username'', ''alice'')]), [LookupUser ''alice''])"
    by (simp add: sampleStrategy_def sampleDefinitions_def sampleRepository_def sampleUser_def
          hideRedactedFields_def rx_of_def)
  have ok: "isValidTime (exp \<lparr>username = ''alice'', exp = 1700000000\<rparr> * 1000)"
    by (simp add: isValidTime_def)
  have late: "exp \<lparr>username = ''alice'', exp = 1700000000\<rparr> * 1000 < (1700000000001::int)"
    and at: "(1700000000000::int) \<le> exp \<lparr>username = ''alice'', exp = 1700000000\<rparr> * 1000"
    and s1: "exp \<lparr>username = ''alice'', exp = 1700000000\<rparr> = 1700000000001 div 1000"
    and m1: "(1700000000001::int) mod 1000 \<noteq> 0"
    and s0: "exp \<lparr>username = ''alice'', exp = 1700000000\<rparr> = 1700000000000 div 1000"
    and m0: "(1700000000000::int) mod 1000 = 0"
    and ah: "exp \<lparr>username = ''alice'', exp = 1700000000\<rparr> = 1699999999500 div 1000 + 1"
    by simp_all
  note t1 = validate_expiry_strict [where p = "\<lparr>username = ''alice'', exp = 1700000000\<rparr>"
      and now = 1700000000001 and this = sampleStrategy]
  note t0 = validate_expiry_strict [where p = "\<lparr>username = ''alice'', exp = 1700000000\<rparr>"
      and now = 1700000000000 and this = sampleStrategy]
  note t2 = validate_expiry_strict [where p = "\<lparr>username = ''alice'', exp = 1700000000\<rparr>"
      and now = 1699999999500 and this = sampleStrategy]
  have v1: "validate sampleStrategy 1700000000001 \<lparr>username = ''alice'', exp = 1700000000\<rparr> =
      (resolved None, [])"
    using t1 [THEN conjunct1, THEN mp, OF conjI, OF ok late] .
  have v0: "validate sampleStrategy 1700000000000 \<lparr>username = ''alice'', exp = 1700000000\<rparr> =
     (resolved (Some [(''id'', ''123456''), (''username'', ''alice'')]), [LookupUser ''alice''])"
    using t0 [THEN conjunct2, THEN conjunct1, THEN mp, OF at] r by simp
  have v2: "validate sampleStrategy 1699999999500 \<lparr>username = ''alice'', exp = 1700000000\<rparr> =
     (resolved (Some [(''id'', ''123456''), (''username'', ''alice'')]), [LookupUser ''alice''])"
    using t2 [THEN conjunct2, THEN conjunct2, THEN conjunct1, THEN mp, OF ah] r by simp
  from ok late s1 m1 v1 at s0 m0 v0 ah v2 show ?thesis
    by (intro conjI)
qed

text \<open>
  The statement of C1 as written, with rejection from \<open>exp * 1000\<close> on, fails at
  the instant \<open>exp * 1000\<close> itself, where the token still passes: with
  \<open>exp = 1700000000\<close> and the clock at \<open>1700000000000\<close>, the clock is at or after
  the expiry and \<^verbatim>\<open>validate\<close> resolves with the user.
\<close>

theorem validate_at_exp_counterexample:
  "1700000000000 \<ge> exp \<lparr>username = ''alice'', exp = 1700000000\<rparr> * 1000 \<and>
   validate sampleStrategy 1700000000000 \<lparr>username = ''alice'', exp = 1700000000\<rparr> =
     (resolved (Some [(''id'', ''123456''), (''username'', ''alice'')]), [LookupUser ''alice''])"
  by (simp add: validate_eq isValidTime_def sampleStrategy_def sampleDefinitions_def
        sampleRepository_def sampleUser_def hideRedactedFields_def rx_of_def)

text \<open>
  When the payload decoded from the request's refresh token has its \<open>exp\<close> in the past,
  at an instant a \<^verbatim>\<open>Date\<close> can hold, \<^verbatim>\<open>authenticate\<close> ends with
  \<^verbatim>\<open>fail(401)\<close>, whatever decoder is configured; the run reads the request and
  calls the decoder, and never asks the directory.
\<close>

lemma expired_refresh_token_rejected:
  assumes "fst (jwtFromRequest this req) = Some t"
    and "decodeRefreshToken (jwtService this) t = returns (Some p)"
    and "isValidTime (exp p * 1000)"
    and "exp p * 1000 < now"
  shows "authenticate this now req =
           (fail 401, snd (jwtFromRequest this req) @ [DecodeRefresh t]) \<and>
         (\<forall>u. LookupUser u \<notin> set (snd (authenticate this now req)))"
proof -
  have a: "authenticate this now req =
             (fail 401, snd (jwtFromRequest this req) @ [DecodeRefresh t])"
    using assms by (simp add: authenticate_eq validate_eq)
  have "\<forall>u. LookupUser u \<notin> set (snd (jwtFromRequest this req))"
    using jwtFromRequest_log [of this req] by auto
  with a show ?thesis by simp
qed


section \<open>Transfer modes and channels\<close>

text \<open>
  C3. Extraction follows the transfer mode, for every request: in mode \<open>cookie\<close> the
  token is the \<open>RefreshToken\<close> cookie (or null) and the header extractor returns null
  without reading the request; in mode \<open>bearer\<close> the token is the
  \<open>refresh-token\<close> header (or null) and the cookie extractor returns null without
  reading the request; in mode \<open>both\<close> the cookie is read first and wins when it is
  non-empty, and only otherwise the header is read.
\<close>

theorem extraction_obeys_transfer_mode:
  "(transferTokenMethod (authDefinitions this) = COOKIE_ONLY \<longrightarrow>
      jwtFromRequest this req =
        (or_null (cookies req ''RefreshToken''), [ReadCookie ''RefreshToken'']) \<and>
      refreshTokenHeaderExtractor COOKIE_ONLY req = (None, [])) \<and>
   (transferTokenMethod (authDefinitions this) = BEARER_ONLY \<longrightarrow>
      jwtFromRequest this req =
        (or_null (headers req ''refresh-token''), [ReadHeader ''refresh-token'']) \<and>
      cookieExtractor BEARER_ONLY req = (None, [])) \<and>
   (transferTokenMethod (authDefinitions this) = BOTH \<longrightarrow>
      jwtFromRequest this req =
        (if cookies req ''RefreshToken'' \<noteq> None \<and> cookies req ''RefreshToken'' \<noteq> Some []
         then (cookies req ''RefreshToken'', [ReadCookie ''RefreshToken''])
         else (or_null (headers req ''refresh-token''),
               [ReadCookie ''RefreshToken'', ReadHeader ''refresh-token''])))"
  by (cases "cookies req ''RefreshToken''")
     (simp_all add: jwtFromRequest_eq cookieExtractor_def refreshTokenHeaderExtractor_def
        truthy_def)

theorem extraction_obeys_transfer_mode_witness:
  "jwtFromRequest (withMode COOKIE_ONLY) (sampleRequest None (Some ''rt-alice'')) =
     (None, [ReadCookie ''RefreshToken'']) \<and>
   jwtFromRequest (withMode BEARER_ONLY) (sampleRequest (Some ''rt-ghost'') (Some ''rt-alice'')) =
     (Some ''rt-alice'', [ReadHeader ''refresh-token'']) \<and>
   jwtFromRequest (withMode BOTH) (sampleRequest (Some ''rt-ghost'') (Some ''rt-alice'')) =
     (Some ''rt-ghost'', [ReadCookie ''RefreshToken'']) \<and>
   jwtFromRequest (withMode BOTH) (sampleRequest None (Some ''rt-alice'')) =
     (Some ''rt-alice'', [ReadCookie ''RefreshToken'', ReadHeader ''refresh-token''])"
  using extraction_obeys_transfer_mode [of "withMode COOKIE_ONLY" "sampleRequest None (Some ''rt-alice'')"]
    extraction_obeys_transfer_mode [of "withMode BEARER_ONLY" "sampleRequest (Some ''rt-ghost'') (Some ''rt-alice'')"]
    extraction_obeys_transfer_mode [of "withMode BOTH" "sampleRequest (Some ''rt-ghost'') (Some ''rt-alice'')"]
    extraction_obeys_transfer_mode [of "withMode BOTH" "sampleRequest None (Some ''rt-alice'')"]
  by (simp add: withMode_def sampleStrategy_def sampleDefinitions_def sampleRequest_def or_null_def
        truthy_def)

text \<open>
  C4. A run of \<^verbatim>\<open>authenticate\<close> reads no cookie but \<open>RefreshToken\<close> and no header
  but \<open>refresh-token\<close>, and never calls the access-token decoder; the token it
  extracts is the value of one of these two channels and is handed to
  \<^verbatim>\<open>decodeRefreshToken\<close>. The run is the same for any request that agrees on
  these two channels, whatever its \<open>AccessToken\<close> cookie or \<open>Authorization\<close>
  header, and the same whatever the access-token decoder of the token service is.
\<close>

theorem refresh_channels_only:
  "(\<forall>name. ReadCookie name \<in> set (snd (authenticate this now req)) \<longrightarrow> name = ''RefreshToken'') \<and>
   (\<forall>name. ReadHeader name \<in> set (snd (authenticate this now req)) \<longrightarrow> name = ''refresh-token'') \<and>
   (\<forall>t. DecodeAccess t \<notin> set (snd (authenticate this now req))) \<and>
   (\<forall>t. fst (jwtFromRequest this req) = Some t \<longrightarrow>
      (cookies req ''RefreshToken'' = Some t \<or> headers req ''refresh-token'' = Some t) \<and>
      DecodeRefresh t \<in> set (snd (authenticate this now req))) \<and>
   (\<forall>req'. cookies req' ''RefreshToken'' = cookies req ''RefreshToken'' \<and>
           headers req' ''refresh-token'' = headers req ''refresh-token'' \<longrightarrow>
           authenticate this now req' = authenticate this now req) \<and>
   authenticate (this\<lparr>jwtService := (jwtService this)\<lparr>decodeAccessToken := d\<rparr>\<rparr>) now req =
     authenticate this now req"
proof -
  have log: "set (snd (authenticate this now req)) \<subseteq>
     {ReadCookie ''RefreshToken'', ReadHeader ''refresh-token''} \<union>
     range DecodeRefresh \<union> range LookupUser"
    by (rule authenticate_log)
  have a: "\<forall>name. ReadCookie name \<in> set (snd (authenticate this now req)) \<longrightarrow>
             name = ''RefreshToken''"
    using log by auto
  have b: "\<forall>name. ReadHeader name \<in> set (snd (authenticate this now req)) \<longrightarrow>
             name = ''refresh-token''"
    using log by auto
  have c: "\<forall>t. DecodeAccess t \<notin> set (snd (authenticate this now req))"
    using log by auto
  have d: "\<forall>t. fst (jwtFromRequest this req) = Some t \<longrightarrow>
      (cookies req ''RefreshToken'' = Some t \<or> headers req ''refresh-token'' = Some t) \<and>
      DecodeRefresh t \<in> set (snd (authenticate this now req))"
    using jwtFromRequest_source [of this req]
    by (auto simp add: authenticate_eq split: option.splits returned.splits)
  have e: "\<forall>req'. cookies req' ''RefreshToken'' = cookies req ''RefreshToken'' \<and>
           headers req' ''refresh-token'' = headers req ''refresh-token'' \<longrightarrow>
           authenticate this now req' = authenticate this now req"
    by (intro allI impI, elim conjE, rule authenticate_frame)
  have f: "authenticate (this\<lparr>jwtService := (jwtService this)\<lparr>decodeAccessToken := d\<rparr>\<rparr>) now req =
     authenticate this now req"
    by (simp add: authenticate_eq jwtFromRequest_service validate_service
          cong: option.case_cong returned.case_cong)
  from a b c d e f show ?thesis by blast
qed

theorem refresh_channels_only_witness:
  "fst (jwtFromRequest sampleStrategy (sampleRequest None (Some ''rt-alice''))) = Some ''rt-alice'' \<and>
   headers (sampleRequest None (Some ''rt-alice'')) ''refresh-token'' = Some ''rt-alice'' \<and>
   authenticate sampleStrategy 1600000000000 (sampleRequest None (Some ''rt-alice'')) =
     (success [(''id'', ''123456''), (''username'', ''alice'')],
      [ReadCookie ''RefreshToken'', ReadHeader ''refresh-token'', DecodeRefresh ''rt-alice'',
       LookupUser ''alice'']) \<and>
   authenticate sampleStrategy 1600000000000
     ((sampleRequest None (Some ''rt-alice''))
        \<lparr>cookies := (cookies (sampleRequest None (Some ''rt-alice'')))(''AccessToken'' \<mapsto> ''rt-ghost''),
         headers := (headers (sampleRequest None (Some ''rt-alice'')))(''authorization'' \<mapsto> ''Bearer rt-ghost'')\<rparr>) =
     authenticate sampleStrategy 1600000000000 (sampleRequest None (Some ''rt-alice'')) \<and>
   authenticate
     (sampleStrategy\<lparr>jwtService :=
        (jwtService sampleStrategy)\<lparr>decodeAccessToken := decodeRefreshToken sampleTokenService\<rparr>\<rparr>)
     1600000000000 (sampleRequest None (Some ''rt-alice'')) =
     authenticate sampleStrategy 1600000000000 (sampleRequest None (Some ''rt-alice''))"
proof -
  have run: "authenticate sampleStrategy 1600000000000 (sampleRequest None (Some ''rt-alice'')) =
   (success [(''id'', ''123456''), (''username'', ''alice'')],
    [ReadCookie ''RefreshToken'', ReadHeader ''refresh-token'', DecodeRefresh ''rt-alice'',
     LookupUser ''alice''])"
    by (simp add: authenticate_eq jwtFromRequest_eq validate_eq isValidTime_def rx_of_def
          sampleStrategy_def sampleDefinitions_def sampleRepository_def sampleUser_def
          sampleTokenService_def sampleRequest_def hideRedactedFields_def or_null_def
          truthy_def)
  have tok: "fst (jwtFromRequest sampleStrategy (sampleRequest None (Some ''rt-alice''))) =
      Some ''rt-alice''"
    by (simp add: jwtFromRequest_eq sampleStrategy_def sampleDefinitions_def sampleRequest_def
          or_null_def truthy_def)
  have hdr: "headers (sampleRequest None (Some ''rt-alice'')) ''refresh-token'' = Some ''rt-alice''"
    by (simp add: sampleRequest_def)
  note c4 = refresh_channels_only [where this = sampleStrategy and now = 1600000000000
        and req = "sampleRequest None (Some ''rt-alice'')"
        and d = "decodeRefreshToken sampleTokenService"]
  note frame = c4 [THEN conjunct2, THEN conjunct2, THEN conjunct2, THEN conjunct2,
        THEN conjunct1, rule_format]
  note svc = c4 [THEN conjunct2, THEN conjunct2, THEN conjunct2, THEN conjunct2,
        THEN conjunct2]
  have acc: "authenticate sampleStrategy 1600000000000
     ((sampleRequest None (Some ''rt-alice''))
        \<lparr>cookies := (cookies (sampleRequest None (Some ''rt-alice'')))(''AccessToken'' \<mapsto> ''rt-ghost''),
         headers := (headers (sampleRequest None (Some ''rt-alice'')))(''authorization'' \<mapsto> ''Bearer rt-ghost'')\<rparr>) =
     authenticate sampleStrategy 1600000000000 (sampleRequest None (Some ''rt-alice''))"
    by (rule frame) simp
  from run tok hdr acc svc show ?thesis by (intro conjI)
qed

section \<open>Outcomes\<close>




text \<open>
  C6. The user handed to \<^verbatim>\<open>success\<close> is the directory's record for the payload's
  user name after \<^verbatim>\<open>hideRedactedFields\<close> with the configured
  \<^verbatim>\<open>redactedFields\<close>, and none of the configured field names is a field of it.
\<close>

theorem success_user_is_redacted:
  assumes "fst (authenticate this now req) = success u"
  shows "(\<exists>t p r. fst (jwtFromRequest this req) = Some t \<and>
            decodeRefreshToken (jwtService this) t = returns (Some p) \<and>
            lastValueFrom (getAuthUserByUsername (authRepository this) (username p)) =
              resolved (Some r) \<and>
            hideRedactedFields (redactedFields (authDefinitions this)) (Some r) = Some u) \<and>
         (\<forall>f \<in> set (redactedFields (authDefinitions this)). map_of u f = None)"
proof -
  from assms obtain t p where
    tok: "fst (jwtFromRequest this req) = Some t" and
    dec: "decodeRefreshToken (jwtService this) t = returns (Some p)" and
    val: "fst (validate this now p) = resolved (Some u)"
    by (auto simp add: authenticate_eq split: option.splits returned.splits Promise.splits)
  from val obtain x where
    last: "lastValueFrom (getAuthUserByUsername (authRepository this) (username p)) =
             resolved x" and
    hx: "hideRedactedFields (redactedFields (authDefinitions this)) x = Some u"
    by (auto simp add: validate_eq map_Promise_resolved split: if_splits)
  from hx obtain r where x: "x = Some r"
    by (cases x) (simp_all add: hideRedactedFields_def)
  from hx x have "u = filter (\<lambda>kv. fst kv \<notin> set (redactedFields (authDefinitions this))) r"
    by (simp add: hideRedactedFields_def)
  then have "\<forall>f \<in> set (redactedFields (authDefinitions this)). map_of u f = None"
    by (simp add: map_of_filter_redacted)
  with tok dec last hx x show ?thesis by blast
qed

theorem success_user_is_redacted_witness:
  "fst (authenticate sampleStrategy 1600000000000 (sampleRequest (Some ''rt-alice'') None)) =
     success [(''id'', ''123456''), (''username'', ''alice'')] \<and>
   lastValueFrom (getAuthUserByUsername (authRepository sampleStrategy) ''alice'') =
     resolved (Some [(''id'', ''123456''), (''username'', ''alice''), (''password'', ''hash'')]) \<and>
   redactedFields (authDefinitions sampleStrategy) = [''password''] \<and>
   map_of [(''id'', ''123456''), (''username'', ''alice'')] ''password'' = None"
proof -
  have run: "fst (authenticate sampleStrategy 1600000000000
       (sampleRequest (Some ''rt-alice'') None)) =
     success [(''id'', ''123456''), (''username'', ''alice'')]"
    by (simp add: sample_runs)
  have rf: "redactedFields (authDefinitions sampleStrategy) = [''password'']"
    by (simp add: sampleStrategy_def sampleDefinitions_def)
  have dir: "lastValueFrom (getAuthUserByUsername (authRepository sampleStrategy) ''alice'') =
     resolved (Some [(''id'', ''123456''), (''username'', ''alice''), (''password'', ''hash'')])"
    by (simp add: sampleStrategy_def sampleRepository_def sampleUser_def rx_of_def)
  have "\<forall>f \<in> set (redactedFields (authDefinitions sampleStrategy)).
          map_of [(''id'', ''123456''), (''username'', ''alice'')] f = None"
    using success_user_is_redacted [OF run] by (rule conjunct2)
  then have "map_of [(''id'', ''123456''), (''username'', ''alice'')] ''password'' = None"
    by (simp add: rf)
  with run rf dir show ?thesis by (intro conjI)
qed

text \<open>
  C7. For a decoded payload that has not expired, and a directory that holds a record
  for its user name, \<^verbatim>\<open>authenticate\<close> asks the directory for that user name
  during the run and succeeds with the record the directory returns, redacted: the user
  comes from the directory, by the payload's user name, not from the token.
\<close>

theorem success_user_from_directory:
  assumes "fst (jwtFromRequest this req) = Some t"
    and "decodeRefreshToken (jwtService this) t = returns (Some p)"
    and "now \<le> exp p * 1000"
    and "lastValueFrom (getAuthUserByUsername (authRepository this) (username p)) =
           resolved (Some r)"
  shows "hideRedactedFields (redactedFields (authDefinitions this)) (Some r) =
           Some (filter (\<lambda>kv. fst kv \<notin> set (redactedFields (authDefinitions this))) r) \<and>
         authenticate this now req =
           (success (filter (\<lambda>kv. fst kv \<notin> set (redactedFields (authDefinitions this))) r),
            snd (jwtFromRequest this req) @ [DecodeRefresh t, LookupUser (username p)])"
  using assms by (simp add: authenticate_eq validate_eq hideRedactedFields_def)

theorem success_user_from_directory_witness:
  "fst (jwtFromRequest (withMode BEARER_ONLY) (sampleRequest None (Some ''rt-alice''))) =
     Some ''rt-alice'' \<and>
   decodeRefreshToken (jwtService (withMode BEARER_ONLY)) ''rt-alice'' =
     returns (Some \<lparr>username = ''alice'', exp = 1700000000\<rparr>) \<and>
   1700000000000 \<le> exp \<lparr>username = ''alice'', exp = 1700000000\<rparr> * 1000 \<and>
   lastValueFrom (getAuthUserByUsername (authRepository (withMode BEARER_ONLY))
     (username \<lparr>username = ''alice'', exp = 1700000000\<rparr>)) = resolved (Some sampleUser) \<and>
   authenticate (withMode BEARER_ONLY) 1700000000000 (sampleRequest None (Some ''rt-alice'')) =
     (success [(''id'', ''123456''), (''username'', ''alice'')],
      [ReadHeader ''refresh-token'', DecodeRefresh ''rt-alice'', LookupUser ''alice''])"
proof -
  have h1: "fst (jwtFromRequest (withMode BEARER_ONLY) (sampleRequest None (Some ''rt-alice''))) =
     Some ''rt-alice''"
    by (simp add: jwtFromRequest_eq withMode_def sampleStrategy_def sampleDefinitions_def
          sampleRequest_def or_null_def truthy_def)
  have h2: "decodeRefreshToken (jwtService (withMode BEARER_ONLY)) ''rt-alice'' =
     returns (Some \<lparr>username = ''alice'', exp = 1700000000\<rparr>)"
    by (simp add: withMode_def sampleStrategy_def sampleTokenService_def)
  have h3: "(1700000000000::int) \<le> exp \<lparr>username = ''alice'', exp = 1700000000\<rparr> * 1000"
    by simp
  have h4: "lastValueFrom (getAuthUserByUsername (authRepository (withMode BEARER_ONLY))
     (username \<lparr>username = ''alice'', exp = 1700000000\<rparr>)) = resolved (Some sampleUser)"
    by (simp add: withMode_def sampleStrategy_def sampleRepository_def rx_of_def)
  have l: "snd (jwtFromRequest (withMode BEARER_ONLY) (sampleRequest None (Some ''rt-alice''))) =
     [ReadHeader ''refresh-token'']"
    by (simp add: jwtFromRequest_eq withMode_def sampleStrategy_def sampleDefinitions_def)
  have rf: "redactedFields (authDefinitions (withMode BEARER_ONLY)) = [''password'']"
    by (simp add: withMode_def sampleStrategy_def sampleDefinitions_def)
  have "authenticate (withMode BEARER_ONLY) 1700000000000
       (sampleRequest None (Some ''rt-alice'')) =
     (success [(''id'', ''123456''), (''username'', ''alice'')],
      [ReadHeader ''refresh-token'', DecodeRefresh ''rt-alice'', LookupUser ''alice''])"
    using success_user_from_directory [OF h1 h2 h3 h4] by (simp add: l rf sampleUser_def)
  with h1 h2 h3 h4 show ?thesis by (intro conjI)
qed

section \<open>Token round trip\<close>

text \<open>
  C8. Decoding a freshly issued access token gives back a payload with the user name it
  was issued for and with \<open>exp\<close> equal to the time of issue plus the configured expiry
  of access tokens, for every user name and time of issue; the signer's secret and expiry
  are the ones of the auth definitions' \<open>jwt\<close> settings.
\<close>

theorem access_token_round_trip:
  "TokenCodec_decodeAccessToken sign (JwtModule_useFactory defs)
     (TokenCodec_issueAccessToken sign (JwtModule_useFactory defs) now u) =
     Some \<lparr>username = u, exp = now + jwt_expiresIn defs, iat = now, tokenClass = access\<rparr> \<and>
   secret (JwtModule_useFactory defs) = jwt_secret defs \<and>
   expiresIn (signOptions (JwtModule_useFactory defs)) = jwt_expiresIn defs"
  by (simp add: TokenCodec_decodeAccessToken_def TokenCodec_issueAccessToken_def
        JwtModule_useFactory_def Let_def)

theorem access_token_round_trip_witness:
  "TokenCodec_issueAccessToken sampleSign (JwtModule_useFactory sampleDefinitions) 1700000000 ''alice'' =
     \<lparr>payload = \<lparr>username = ''alice'', exp = 1700086400, iat = 1700000000, tokenClass = access\<rparr>,
      signature = ''s3cret.alice''\<rparr> \<and>
   TokenCodec_decodeAccessToken sampleSign (JwtModule_useFactory sampleDefinitions)
     (TokenCodec_issueAccessToken sampleSign (JwtModule_useFactory sampleDefinitions) 1700000000 ''alice'') =
     Some \<lparr>username = ''alice'', exp = 1700086400, iat = 1700000000, tokenClass = access\<rparr>"
proof -
  have i: "TokenCodec_issueAccessToken sampleSign (JwtModule_useFactory sampleDefinitions) 1700000000 ''alice'' =
     \<lparr>payload = \<lparr>username = ''alice'', exp = 1700086400, iat = 1700000000, tokenClass = access\<rparr>,
      signature = ''s3cret.alice''\<rparr>"
    by (simp add: TokenCodec_issueAccessToken_def JwtModule_useFactory_def sampleDefinitions_def
          sampleSign_def Let_def)
  have e: "jwt_expiresIn sampleDefinitions = 86400"
    by (simp add: sampleDefinitions_def)
  have "TokenCodec_decodeAccessToken sampleSign (JwtModule_useFactory sampleDefinitions)
     (TokenCodec_issueAccessToken sampleSign (JwtModule_useFactory sampleDefinitions) 1700000000 ''alice'') =
     Some \<lparr>username = ''alice'', exp = 1700086400, iat = 1700000000, tokenClass = access\<rparr>"
    using access_token_round_trip [of sampleSign sampleDefinitions 1700000000 "''alice''"]
    by (simp add: e)
  with i show ?thesis by (intro conjI)
qed

section \<open>Empty tokens and unknown users\<close>

text \<open>
  C9. An empty token counts as no token. Each extractor returns null for an empty value
  as for a missing one, and so the whole run is the same for an empty and for a missing
  cookie, and for an empty and for a missing header. In mode \<open>both\<close> an empty
  \<open>RefreshToken\<close> cookie lets the \<open>refresh-token\<close> header decide. When cookie and
  header are each empty or missing, \<^verbatim>\<open>authenticate\<close> fails with 401 and no decoder
  is called, in every mode.
\<close>

theorem empty_token_is_absent:
  "cookieExtractor mode (req\<lparr>cookies := (cookies req)(''RefreshToken'' \<mapsto> [])\<rparr>) =
     cookieExtractor mode (req\<lparr>cookies := (cookies req)(''RefreshToken'' := None)\<rparr>) \<and>
   fst (cookieExtractor mode (req\<lparr>cookies := (cookies req)(''RefreshToken'' \<mapsto> [])\<rparr>)) = None \<and>
   refreshTokenHeaderExtractor mode (req\<lparr>headers := (headers req)(''refresh-token'' \<mapsto> [])\<rparr>) =
     refreshTokenHeaderExtractor mode (req\<lparr>headers := (headers req)(''refresh-token'' := None)\<rparr>) \<and>
   fst (refreshTokenHeaderExtractor mode
          (req\<lparr>headers := (headers req)(''refresh-token'' \<mapsto> [])\<rparr>)) = None \<and>
   authenticate this now (req\<lparr>cookies := (cookies req)(''RefreshToken'' \<mapsto> [])\<rparr>) =
     authenticate this now (req\<lparr>cookies := (cookies req)(''RefreshToken'' := None)\<rparr>) \<and>
   authenticate this now (req\<lparr>headers := (headers req)(''refresh-token'' \<mapsto> [])\<rparr>) =
     authenticate this now (req\<lparr>headers := (headers req)(''refresh-token'' := None)\<rparr>) \<and>
   (transferTokenMethod (authDefinitions this) = BOTH \<and> cookies req ''RefreshToken'' = Some [] \<longrightarrow>
      jwtFromRequest this req =
        (or_null (headers req ''refresh-token''),
         [ReadCookie ''RefreshToken'', ReadHeader ''refresh-token''])) \<and>
   ((cookies req ''RefreshToken'' = None \<or> cookies req ''RefreshToken'' = Some []) \<and>
    (headers req ''refresh-token'' = None \<or> headers req ''refresh-token'' = Some []) \<longrightarrow>
      fst (authenticate this now req) = fail 401 \<and>
      (\<forall>t. DecodeRefresh t \<notin> set (snd (authenticate this now req))))"
proof -
  have a: "cookieExtractor mode (req\<lparr>cookies := (cookies req)(''RefreshToken'' \<mapsto> [])\<rparr>) =
     cookieExtractor mode (req\<lparr>cookies := (cookies req)(''RefreshToken'' := None)\<rparr>)"
    by (simp add: cookieExtractor_def getRequestCookie_def or_null_empty)
  have b: "fst (cookieExtractor mode (req\<lparr>cookies := (cookies req)(''RefreshToken'' \<mapsto> [])\<rparr>)) = None"
    by (simp add: cookieExtractor_def getRequestCookie_def or_null_empty)
  have c: "refreshTokenHeaderExtractor mode (req\<lparr>headers := (headers req)(''refresh-token'' \<mapsto> [])\<rparr>) =
     refreshTokenHeaderExtractor mode (req\<lparr>headers := (headers req)(''refresh-token'' := None)\<rparr>)"
    by (simp add: refreshTokenHeaderExtractor_def getRequestHeader_def or_null_empty)
  have d: "fst (refreshTokenHeaderExtractor mode
          (req\<lparr>headers := (headers req)(''refresh-token'' \<mapsto> [])\<rparr>)) = None"
    by (simp add: refreshTokenHeaderExtractor_def getRequestHeader_def or_null_empty)
  have je: "jwtFromRequest this (req\<lparr>cookies := (cookies req)(''RefreshToken'' \<mapsto> [])\<rparr>) =
     jwtFromRequest this (req\<lparr>cookies := (cookies req)(''RefreshToken'' := None)\<rparr>)"
    by (cases "transferTokenMethod (authDefinitions this)")
       (simp_all add: jwtFromRequest_eq or_null_empty truthy_def)
  have e: "authenticate this now (req\<lparr>cookies := (cookies req)(''RefreshToken'' \<mapsto> [])\<rparr>) =
     authenticate this now (req\<lparr>cookies := (cookies req)(''RefreshToken'' := None)\<rparr>)"
    by (simp only: authenticate_eq je)
  have jf: "jwtFromRequest this (req\<lparr>headers := (headers req)(''refresh-token'' \<mapsto> [])\<rparr>) =
     jwtFromRequest this (req\<lparr>headers := (headers req)(''refresh-token'' := None)\<rparr>)"
    by (cases "transferTokenMethod (authDefinitions this)")
       (simp_all add: jwtFromRequest_eq or_null_empty truthy_def)
  have f: "authenticate this now (req\<lparr>headers := (headers req)(''refresh-token'' \<mapsto> [])\<rparr>) =
     authenticate this now (req\<lparr>headers := (headers req)(''refresh-token'' := None)\<rparr>)"
    by (simp only: authenticate_eq jf)
  have g: "transferTokenMethod (authDefinitions this) = BOTH \<and>
      cookies req ''RefreshToken'' = Some [] \<longrightarrow>
      jwtFromRequest this req =
        (or_null (headers req ''refresh-token''),
         [ReadCookie ''RefreshToken'', ReadHeader ''refresh-token''])"
    by (simp add: jwtFromRequest_eq truthy_def)
  have h: "(cookies req ''RefreshToken'' = None \<or> cookies req ''RefreshToken'' = Some []) \<and>
    (headers req ''refresh-token'' = None \<or> headers req ''refresh-token'' = Some []) \<longrightarrow>
      fst (authenticate this now req) = fail 401 \<and>
      (\<forall>t. DecodeRefresh t \<notin> set (snd (authenticate this now req)))"
  proof (intro impI, elim conjE)
    assume ck: "cookies req ''RefreshToken'' = None \<or> cookies req ''RefreshToken'' = Some []"
      and hd: "headers req ''refresh-token'' = None \<or> headers req ''refresh-token'' = Some []"
    from ck have oc: "or_null (cookies req ''RefreshToken'') = None"
      and tc: "\<not> truthy (cookies req ''RefreshToken'')"
      by (auto simp add: or_null_empty truthy_def)
    from hd have oh: "or_null (headers req ''refresh-token'') = None"
      by (auto simp add: or_null_empty)
    have none: "fst (jwtFromRequest this req) = None"
      by (cases "transferTokenMethod (authDefinitions this)")
         (simp_all add: jwtFromRequest_eq oc oh tc)
    have "\<forall>t. DecodeRefresh t \<notin> set (snd (jwtFromRequest this req))"
      using jwtFromRequest_log [of this req] by auto
    with none show "fst (authenticate this now req) = fail 401 \<and>
      (\<forall>t. DecodeRefresh t \<notin> set (snd (authenticate this now req)))"
      by (simp add: authenticate_eq)
  qed
  from a b c d e f g h show ?thesis by (intro conjI)
qed

theorem empty_token_is_absent_witness:
  "transferTokenMethod (authDefinitions sampleStrategy) = BOTH \<and>
   cookies (sampleRequest (Some []) (Some ''rt-alice'')) ''RefreshToken'' = Some [] \<and>
   jwtFromRequest sampleStrategy (sampleRequest (Some []) (Some ''rt-alice'')) =
     (Some ''rt-alice'', [ReadCookie ''RefreshToken'', ReadHeader ''refresh-token'']) \<and>
   headers (sampleRequest (Some []) None) ''refresh-token'' = None \<and>
   fst (authenticate sampleStrategy 1600000000000 (sampleRequest (Some []) None)) = fail 401 \<and>
   snd (authenticate sampleStrategy 1600000000000 (sampleRequest (Some []) None)) =
     [ReadCookie ''RefreshToken'', ReadHeader ''refresh-token'']"
proof -
  have m: "transferTokenMethod (authDefinitions sampleStrategy) = BOTH"
    by (simp add: sampleStrategy_def sampleDefinitions_def)
  have c1: "cookies (sampleRequest (Some []) (Some ''rt-alice'')) ''RefreshToken'' = Some []"
    and h1: "headers (sampleRequest (Some []) (Some ''rt-alice'')) ''refresh-token'' = Some ''rt-alice''"
    and c2: "cookies (sampleRequest (Some []) None) ''RefreshToken'' = Some []"
    and h2: "headers (sampleRequest (Some []) None) ''refresh-token'' = None"
    by (simp_all add: sampleRequest_def)
  note w1 = empty_token_is_absent [where this = sampleStrategy
      and req = "sampleRequest (Some []) (Some ''rt-alice'')"]
  note fall = w1 [THEN conjunct2, THEN conjunct2, THEN conjunct2, THEN conjunct2,
      THEN conjunct2, THEN conjunct2, THEN conjunct1, rule_format, OF conjI, OF m c1]
  have j: "jwtFromRequest sampleStrategy (sampleRequest (Some []) (Some ''rt-alice'')) =
     (Some ''rt-alice'', [ReadCookie ''RefreshToken'', ReadHeader ''refresh-token''])"
    using fall by (simp add: h1 or_null_def truthy_def)
  note w2 = empty_token_is_absent [where this = sampleStrategy and now = 1600000000000
      and req = "sampleRequest (Some []) None"]
  note rej = w2 [THEN conjunct2, THEN conjunct2, THEN conjunct2, THEN conjunct2,
      THEN conjunct2, THEN conjunct2, THEN conjunct2, rule_format, OF conjI,
      OF disjI2 disjI1, OF c2 h2]
  have l: "snd (authenticate sampleStrategy 1600000000000 (sampleRequest (Some []) None)) =
     [ReadCookie ''RefreshToken'', ReadHeader ''refresh-token'']"
    by (simp add: authenticate_eq jwtFromRequest_eq m c2 h2 or_null_empty truthy_def)
  from m c1 j h2 rej [THEN conjunct1] l show ?thesis by (intro conjI)
qed

text \<open>
  C10. For a decoded payload that has not expired and whose user name the directory does
  not know, \<^verbatim>\<open>validate\<close> asks the directory and returns no user, and
  \<^verbatim>\<open>authenticate\<close> fails with 401.
\<close>

theorem unresolvable_user_rejected:
  assumes "fst (jwtFromRequest this req) = Some t"
    and "decodeRefreshToken (jwtService this) t = returns (Some p)"
    and "now \<le> exp p * 1000"
    and "lastValueFrom (getAuthUserByUsername (authRepository this) (username p)) =
           resolved None"
  shows "validate this now p = (resolved None, [LookupUser (username p)]) \<and>
         authenticate this now req =
           (fail 401, snd (jwtFromRequest this req) @ [DecodeRefresh t, LookupUser (username p)])"
  using assms by (simp add: authenticate_eq validate_eq hideRedactedFields_def)

theorem unresolvable_user_rejected_witness:
  "fst (jwtFromRequest sampleStrategy (sampleRequest None (Some ''rt-ghost''))) =
     Some ''rt-ghost'' \<and>
   decodeRefreshToken (jwtService sampleStrategy) ''rt-ghost'' =
     returns (Some \<lparr>username = ''ghost'', exp = 1700000000\<rparr>) \<and>
   1600000000000 \<le> exp \<lparr>username = ''ghost'', exp = 1700000000\<rparr> * 1000 \<and>
   lastValueFrom (getAuthUserByUsername (authRepository sampleStrategy)
     (username \<lparr>username = ''ghost'', exp = 1700000000\<rparr>)) = resolved None \<and>
   authenticate sampleStrategy 1600000000000 (sampleRequest None (Some ''rt-ghost'')) =
     (fail 401,
      [ReadCookie ''RefreshToken'', ReadHeader ''refresh-token'', DecodeRefresh ''rt-ghost'',
       LookupUser ''ghost''])"
proof -
  have h1: "fst (jwtFromRequest sampleStrategy (sampleRequest None (Some ''rt-ghost''))) =
     Some ''rt-ghost''"
    by (simp add: jwtFromRequest_eq sampleStrategy_def sampleDefinitions_def
          sampleRequest_def or_null_def truthy_def)
  have h2: "decodeRefreshToken (jwtService sampleStrategy) ''rt-ghost'' =
     returns (Some \<lparr>username = ''ghost'', exp = 1700000000\<rparr>)"
    by (simp add: sampleStrategy_def sampleTokenService_def)
  have h3: "(1600000000000::int) \<le> exp \<lparr>username = ''ghost'', exp = 1700000000\<rparr> * 1000"
    by simp
  have h4: "lastValueFrom (getAuthUserByUsername (authRepository sampleStrategy)
     (username \<lparr>username = ''ghost'', exp = 1700000000\<rparr>)) = resolved None"
    by (simp add: sampleStrategy_def sampleRepository_def rx_of_def)
  have l: "snd (jwtFromRequest sampleStrategy (sampleRequest None (Some ''rt-ghost''))) =
     [ReadCookie ''RefreshToken'', ReadHeader ''refresh-token'']"
    by (simp add: jwtFromRequest_eq sampleStrategy_def sampleDefinitions_def sampleRequest_def
          truthy_def)
  have "authenticate sampleStrategy 1600000000000 (sampleRequest None (Some ''rt-ghost'')) =
     (fail 401,
      [ReadCookie ''RefreshToken'', ReadHeader ''refresh-token'', DecodeRefresh ''rt-ghost'',
       LookupUser ''ghost''])"
    using unresolvable_user_rejected [OF h1 h2 h3 h4] by (simp add: l)
  with h1 h2 h3 h4 show ?thesis by (intro conjI)
qed

end
